theory Spec2Isabelle
  imports Main "HOL-Library.Word"
begin

section \<open>Data model of the counter handle (aeron\_counter.c)\<close>

text \<open>
  Addresses are natural numbers. A C pointer that may be null is an \<open>addr option\<close>,
  with \<open>None\<close> for \<open>NULL\<close>. Dereferencing an address that holds no object is
  undefined behaviour in C; the model returns \<open>Inl InvalidPointer\<close> there.
\<close>

type_synonym addr = nat

datatype fault = InvalidPointer

text \<open>
  Modelled from the spec: the enumeration of the client's resource kinds is declared in a
  header that is not part of the source at hand. Section 3 names the kinds counter,
  publication and subscription.
\<close>

datatype aeron_client_managed_resource_type =
  AERON_CLIENT_TYPE_PUBLICATION | AERON_CLIENT_TYPE_SUBSCRIPTION | AERON_CLIENT_TYPE_COUNTER

text \<open>The fields of \<open>aeron_counter_t\<close> that \<open>aeron_counter_create\<close> assigns.\<close>

record aeron_counter_t =
  command_base_type :: aeron_client_managed_resource_type
  counter_addr :: "addr option"
  conductor :: "addr option"
  registration_id :: "64 word"
  counter_id :: "32 word"
  is_closed :: bool

text \<open>
  Modelled from the spec: the command channel of the conductor, which is not part of the
  source at hand. Section 3 gives a command an opcode, a registration id and a payload;
  section 4.2 makes the channel bounded.
\<close>

datatype opcode = AddCounter | RemoveCounter | AddPublication

record command =
  cmd_opcode :: opcode
  cmd_registration_id :: "64 word"
  cmd_payload :: addr

record aeron_client_conductor_t =
  command_queue :: "command list"
  queue_capacity :: nat

text \<open>
  The state the three functions run in: the counter handles on the heap, the caller's
  pointer variables that receive a handle (\<open>cells\<close>), the allocator, the C library's
  \<open>errno\<close> and message table, the error slot written by \<open>aeron_set_err\<close>, and the
  conductors. \<open>out_of_memory = Some e\<close> says that the system cannot provide memory and
  reports the error code \<open>e\<close>.
\<close>

record world =
  heap :: "addr \<rightharpoonup> aeron_counter_t"
  cells :: "addr \<rightharpoonup> addr option"
  next_addr :: addr
  out_of_memory :: "int option"
  errno :: int
  strerror :: "int \<Rightarrow> string"
  aeron_errcode :: int
  aeron_errmsg :: string
  conductors :: "addr \<rightharpoonup> aeron_client_conductor_t"

section \<open>Helpers that the source calls\<close>

text \<open>
  Modelled from the spec: \<open>aeron_alloc\<close> is not part of the source at hand. Section 4.1:
  creation "fails with AllocationError when memory cannot be obtained; the error carries
  the underlying system error code". On success the result code is 0 and the block is at
  an address never handed out before; on failure the result code is -1 and \<open>errno\<close>
  holds the system's error code.
\<close>

definition aeron_alloc :: "world \<Rightarrow> int \<times> addr option \<times> world" where
  "aeron_alloc w =
     (case out_of_memory w of
        Some e \<Rightarrow> (- 1, None, w\<lparr>errno := e\<rparr>)
      | None \<Rightarrow> (0, Some (next_addr w), w\<lparr>next_addr := Suc (next_addr w)\<rparr>))"

text \<open>
  Modelled from the spec: \<open>aeron_free\<close> is not part of the source at hand. Section 4.1:
  delete "releases the handle's own memory"; doing so twice on the same handle is
  undefined. The spec is silent on a null argument; the model follows the contract of
  the C library's \<open>free\<close>, for which a null argument is no operation.
\<close>

definition aeron_free :: "addr option \<Rightarrow> world \<Rightarrow> fault + world" where
  "aeron_free p w =
     (case p of
        None \<Rightarrow> Inr w
      | Some a \<Rightarrow>
          (case heap w a of
             None \<Rightarrow> Inl InvalidPointer
           | Some c \<Rightarrow> Inr (w\<lparr>heap := (heap w)(a := None)\<rparr>)))"

text \<open>The conversion \<open>%d\<close> of \<open>printf\<close>: a decimal numeral, with a sign when negative.\<close>

definition digit_char :: "nat \<Rightarrow> char" where
  "digit_char d = ''0123456789'' ! (d mod 10)"

fun string_of_nat :: "nat \<Rightarrow> string" where
  "string_of_nat n =
     (if n < 10 then [digit_char n]
      else string_of_nat (n div 10) @ [digit_char (n mod 10)])"

definition printf_d :: "int \<Rightarrow> string" where
  "printf_d i = (if i < 0 then CHR ''-'' # string_of_nat (nat (- i)) else string_of_nat (nat i))"

text \<open>
  Modelled from the spec: \<open>aeron_set_err\<close> is not part of the source at hand. Section 7:
  the allocation failure is "surfaced synchronously to the caller with the underlying
  system error code/message". The model stores the code and the formatted message in the
  error slot of the state.
\<close>

definition aeron_set_err :: "int \<Rightarrow> string \<Rightarrow> world \<Rightarrow> world" where
  "aeron_set_err errcode msg w = w\<lparr>aeron_errcode := errcode, aeron_errmsg := msg\<rparr>"

definition remove_counter :: "64 word \<Rightarrow> addr \<Rightarrow> command" where
  "remove_counter r a = \<lparr>cmd_opcode = RemoveCounter, cmd_registration_id = r, cmd_payload = a\<rparr>"

definition pending_commands :: "world \<Rightarrow> addr \<Rightarrow> command list" where
  "pending_commands w k = (case conductors w k of None \<Rightarrow> [] | Some cd \<Rightarrow> command_queue cd)"

text \<open>
  Modelled from the spec: the lifecycle state of a handle (section 3:
  \<open>Initialized -> Active -> CloseRequested -> Closed\<close>). The handle of the source carries the
  closed flag only, so the state is read off the flag and the handle's conductor: the
  handle is closed when the flag is set, its close is requested when a close request for
  it is on the command channel, and it is active otherwise. \<open>Initialized\<close> exists only
  within the conductor while creation is pending (section 4.1) and is never the state of
  a handle that create has returned.
\<close>

datatype lifecycle = Initialized | Active | CloseRequested | Closed

definition lifecycle_state :: "aeron_counter_t \<Rightarrow> aeron_client_conductor_t \<Rightarrow> addr \<Rightarrow> lifecycle" where
  "lifecycle_state c cd a =
     (if is_closed c then Closed
      else if remove_counter (registration_id c) a \<in> set (command_queue cd) then CloseRequested
      else Active)"

text \<open>
  Modelled from the spec: \<open>aeron_client_conductor_async_close_counter\<close> is not part of the
  source at hand; close of the source hands every handle that is not null to it, so it
  carries all that section 4.1 says of close on such a handle: it "atomically transitions
  \<open>Active -> CloseRequested\<close> (if already beyond \<open>Active\<close>, returns \<open>Ok\<close> as a no-op) and
  submits an asynchronous close request to the conductor. Returns as soon as the request
  is accepted into the command channel"; section 4.2:
  \<open>submit(command) -> Accepted | QueueFullError\<close> on a bounded channel. The request is the
  command \<open>RemoveCounter\<close> under the handle's registration id (section 8, scenario 2); with
  the request on the channel the handle's state is \<open>CloseRequested\<close>. Accepted is the
  result 0; a full channel gives the result -1 and leaves the handle active, the error
  being retryable.
\<close>

definition aeron_client_conductor_async_close_counter ::
    "addr option \<Rightarrow> addr \<Rightarrow> world \<Rightarrow> fault + (int \<times> world)" where
  "aeron_client_conductor_async_close_counter cond counter w =
     (case cond of
        None \<Rightarrow> Inl InvalidPointer
      | Some k \<Rightarrow>
          (case conductors w k of
             None \<Rightarrow> Inl InvalidPointer
           | Some cd \<Rightarrow>
               (case heap w counter of
                  None \<Rightarrow> Inl InvalidPointer
                | Some c \<Rightarrow>
                    if lifecycle_state c cd counter \<noteq> Active
                    then Inr (0, w)
                    else if length (command_queue cd) < queue_capacity cd
                    then Inr (0, w\<lparr>conductors := (conductors w)(k \<mapsto>
                           cd\<lparr>command_queue := command_queue cd @
                             [remove_counter (registration_id c) counter]\<rparr>)\<rparr>)
                    else Inr (- 1, w))))"

section \<open>The functions of aeron\_counter.c\<close>

text \<open>
  \<open>aeron_counter_create\<close>: the first argument is the address of the caller's variable
  that receives the handle. The variable is set to null, then the block is allocated;
  when that fails the error is recorded from \<open>errno\<close> and the result is -1, otherwise
  the fields are assigned, the variable receives the block's address and the result is 0.
\<close>

definition aeron_counter_create ::
    "addr \<Rightarrow> addr option \<Rightarrow> 64 word \<Rightarrow> 32 word \<Rightarrow> addr option \<Rightarrow> world \<Rightarrow> fault + (int \<times> world)" where
  "aeron_counter_create counter cond reg_id ctr_id ctr_addr w =
     (case cells w counter of
        None \<Rightarrow> Inl InvalidPointer
      | Some old \<Rightarrow>
          (let w1 = w\<lparr>cells := (cells w)(counter \<mapsto> None)\<rparr> in
           case aeron_alloc w1 of
             (rc, p, w2) \<Rightarrow>
               if rc < 0
               then (let errcode = errno w2 in
                     Inr (- 1, aeron_set_err errcode
                            (''aeron_counter_create ('' @ printf_d errcode @ ''): '' @
                               strerror w2 errcode) w2))
               else
                 (case p of
                    None \<Rightarrow> Inl InvalidPointer
                  | Some a \<Rightarrow>
                      Inr (0, w2\<lparr>heap := (heap w2)(a \<mapsto>
                             \<lparr>command_base_type = AERON_CLIENT_TYPE_COUNTER,
                              counter_addr = ctr_addr,
                              conductor = cond,
                              registration_id = reg_id,
                              counter_id = ctr_id,
                              is_closed = False\<rparr>),
                            cells := (cells w2)(counter \<mapsto> Some a)\<rparr>))))"

text \<open>\<open>aeron_counter_delete\<close>: frees the handle and returns 0.\<close>

definition aeron_counter_delete :: "addr option \<Rightarrow> world \<Rightarrow> fault + (int \<times> world)" where
  "aeron_counter_delete counter w =
     (case aeron_free counter w of
        Inl f \<Rightarrow> Inl f
      | Inr w' \<Rightarrow> Inr (0, w'))"

text \<open>
  \<open>aeron_counter_close\<close>: for a handle that is not null, the result of the conductor's
  asynchronous close on the handle's conductor; for null, 0.
\<close>

definition aeron_counter_close :: "addr option \<Rightarrow> world \<Rightarrow> fault + (int \<times> world)" where
  "aeron_counter_close counter w =
     (case counter of
        Some a \<Rightarrow>
          (case heap w a of
             None \<Rightarrow> Inl InvalidPointer
           | Some c \<Rightarrow> aeron_client_conductor_async_close_counter (conductor c) a w)
      | None \<Rightarrow> Inr (0, w))"

section \<open>Example states\<close>

text \<open>
  A state before any counter exists: the caller's variable at address 100 holds a stale
  pointer, one conductor lives at address 5 with an empty channel of capacity 2.
\<close>

definition example_strerror :: "int \<Rightarrow> string" where
  "example_strerror e = (if e = 12 then ''Cannot allocate memory'' else ''Unknown error'')"

definition example_world :: world where
  "example_world =
     \<lparr>heap = Map.empty,
      cells = [100 \<mapsto> Some 77],
      next_addr = 16,
      out_of_memory = None,
      errno = 0,
      strerror = example_strerror,
      aeron_errcode = 0,
      aeron_errmsg = [],
      conductors = [5 \<mapsto> \<lparr>command_queue = [], queue_capacity = 2\<rparr>]\<rparr>"

text \<open>
  The counter of scenario 1 (registration id 42, counter id 7) and the states in which it
  is the only handle, at address 16, with a given closed flag, channel content and channel
  capacity.
\<close>

definition example_counter :: "bool \<Rightarrow> aeron_counter_t" where
  "example_counter closed =
     \<lparr>command_base_type = AERON_CLIENT_TYPE_COUNTER,
      counter_addr = Some 900,
      conductor = Some 5,
      registration_id = 42,
      counter_id = 7,
      is_closed = closed\<rparr>"

definition example_handle_world :: "bool \<Rightarrow> command list \<Rightarrow> nat \<Rightarrow> world" where
  "example_handle_world closed q cap =
     \<lparr>heap = [16 \<mapsto> example_counter closed],
      cells = [100 \<mapsto> Some 16],
      next_addr = 17,
      out_of_memory = None,
      errno = 0,
      strerror = example_strerror,
      aeron_errcode = 0,
      aeron_errmsg = [],
      conductors = [5 \<mapsto> \<lparr>command_queue = q, queue_capacity = cap\<rparr>]\<rparr>"

section \<open>Auxiliary facts\<close>

lemma async_close_heap:
  "aeron_client_conductor_async_close_counter cond a w = Inr (rc, w') \<Longrightarrow> heap w' = heap w"
  unfolding aeron_client_conductor_async_close_counter_def
  by (cases cond; cases "conductors w (the cond)"; cases "heap w a")
     (auto split: if_splits)

lemma close_heap:
  "aeron_counter_close x w = Inr (rc, w') \<Longrightarrow> heap w' = heap w"
proof (cases x)
  case None
  assume "aeron_counter_close x w = Inr (rc, w')"
  with None show ?thesis by (simp add: aeron_counter_close_def)
next
  case (Some a)
  assume r: "aeron_counter_close x w = Inr (rc, w')"
  show ?thesis
  proof (cases "heap w a")
    case None
    with Some r show ?thesis by (simp add: aeron_counter_close_def)
  next
    case (Some c)
    with \<open>x = Some a\<close> r
    have "aeron_client_conductor_async_close_counter (conductor c) a w = Inr (rc, w')"
      by (simp add: aeron_counter_close_def)
    then show ?thesis by (rule async_close_heap)
  qed
qed

lemma delete_heap:
  "aeron_counter_delete x w = Inr (rc, w') \<Longrightarrow>
     heap w' = (case x of None \<Rightarrow> heap w | Some a \<Rightarrow> (heap w)(a := None))"
  by (cases x; cases "heap w (the x)")
     (auto simp: aeron_counter_delete_def aeron_free_def)

lemma example_create:
  "aeron_counter_create 100 (Some 5) 42 7 (Some 900) example_world =
     Inr (0, example_handle_world False [] 2)"
  by (simp add: aeron_counter_create_def aeron_alloc_def example_world_def
        example_handle_world_def example_counter_def)

lemma example_handle:
  "heap (example_handle_world closed q cap) 16 = Some (example_counter closed)"
  by (simp add: example_handle_world_def)

lemma example_close:
  "aeron_counter_close (Some 16) (example_handle_world closed q cap) =
     (if closed \<or> remove_counter 42 16 \<in> set q
      then Inr (0, example_handle_world closed q cap)
      else if length q < cap
      then Inr (0, example_handle_world closed (q @ [remove_counter 42 16]) cap)
      else Inr (- 1, example_handle_world closed q cap))"
  by (simp add: aeron_counter_close_def aeron_client_conductor_async_close_counter_def
        lifecycle_state_def example_handle_world_def example_counter_def)

section \<open>Properties\<close>



text \<open>
  C2. Closing an absent (null) handle returns success (0) at once; the state, and with it
  every conductor's command channel, is as before.
\<close>

theorem close_null_is_noop: "aeron_counter_close None w = Inr (0, w)"
  by (simp add: aeron_counter_close_def)

text \<open>
  C3. Whenever create returns success, the caller's variable holds a handle with exactly
  the given registration id, counter id, shared address and conductor, of kind counter,
  and with the closed flag false.
\<close>

theorem create_success_fields:
  assumes "aeron_counter_create counter cond reg_id ctr_id ctr_addr w = Inr (0, w')"
  shows "\<exists>a. cells w' counter = Some (Some a) \<and>
             heap w' a = Some \<lparr>command_base_type = AERON_CLIENT_TYPE_COUNTER,
                                counter_addr = ctr_addr,
                                conductor = cond,
                                registration_id = reg_id,
                                counter_id = ctr_id,
                                is_closed = False\<rparr>"
  using assms
  by (auto simp: aeron_counter_create_def aeron_alloc_def aeron_set_err_def Let_def
           split: option.splits if_splits)

text \<open>Scenario 1: registration id 42, counter id 7, shared address 900.\<close>

theorem create_success_fields_witness:
  "aeron_counter_create 100 (Some 5) 42 7 (Some 900) example_world =
     Inr (0, example_handle_world False [] 2) \<and>
   (\<exists>a. cells (example_handle_world False [] 2) 100 = Some (Some a) \<and>
        heap (example_handle_world False [] 2) a =
          Some \<lparr>command_base_type = AERON_CLIENT_TYPE_COUNTER,
                counter_addr = Some 900,
                conductor = Some 5,
                registration_id = 42,
                counter_id = 7,
                is_closed = False\<rparr>)"
  using create_success_fields [OF example_create] example_create by simp

text \<open>
  C4. With a valid variable for the handle, create returns -1 exactly when the allocation
  fails, that is when \<open>aeron_alloc\<close> returns a negative result: when no memory can be
  obtained the result is -1 and the error slot holds the system's error code and the
  message built from that code and its description; when memory can be obtained the
  result is 0.
\<close>

theorem create_fails_exactly_on_allocation_failure:
  assumes "cells w counter = Some old"
  shows "((\<exists>w'. aeron_counter_create counter cond reg_id ctr_id ctr_addr w = Inr (- 1, w')) =
            (fst (aeron_alloc (w\<lparr>cells := (cells w)(counter \<mapsto> None)\<rparr>)) < 0)) \<and>
         (case out_of_memory w of
            Some e \<Rightarrow>
              (\<exists>w'. aeron_counter_create counter cond reg_id ctr_id ctr_addr w = Inr (- 1, w') \<and>
                    aeron_errcode w' = e \<and>
                    aeron_errmsg w' =
                      ''aeron_counter_create ('' @ printf_d e @ ''): '' @ strerror w e)
          | None \<Rightarrow>
              (\<exists>w'. aeron_counter_create counter cond reg_id ctr_id ctr_addr w = Inr (0, w')))"
  using assms
  by (simp add: aeron_counter_create_def aeron_alloc_def aeron_set_err_def Let_def
           split: option.splits)

theorem create_fails_exactly_on_allocation_failure_witness:
  "cells (example_world\<lparr>out_of_memory := Some 12\<rparr>) 100 = Some (Some 77) \<and>
   (\<exists>w'. aeron_counter_create 100 (Some 5) 42 7 (Some 900)
            (example_world\<lparr>out_of_memory := Some 12\<rparr>) = Inr (- 1, w') \<and>
         aeron_errcode w' = 12 \<and>
         aeron_errmsg w' = ''aeron_counter_create (12): Cannot allocate memory'')"
proof -
  have c: "cells (example_world\<lparr>out_of_memory := Some 12\<rparr>) 100 = Some (Some 77)"
    by (simp add: example_world_def)
  have m: "''aeron_counter_create ('' @ printf_d 12 @ ''): '' @
             strerror (example_world\<lparr>out_of_memory := Some 12\<rparr>) 12 =
           ''aeron_counter_create (12): Cannot allocate memory''"
    by (simp add: printf_d_def digit_char_def example_world_def example_strerror_def)
  from create_fails_exactly_on_allocation_failure
         [OF c, of "Some 5" 42 7 "Some 900", THEN conjunct2]
  have "\<exists>w'. aeron_counter_create 100 (Some 5) 42 7 (Some 900)
            (example_world\<lparr>out_of_memory := Some 12\<rparr>) = Inr (- 1, w') \<and>
         aeron_errcode w' = 12 \<and>
         aeron_errmsg w' = ''aeron_counter_create ('' @ printf_d 12 @ ''): '' @
             strerror (example_world\<lparr>out_of_memory := Some 12\<rparr>) 12"
    by simp
  then show ?thesis
    unfolding m using c by simp
qed

text \<open>
  C5. For a live handle, close is exactly the conductor's asynchronous close on the
  handle's conductor, with that call's result and state; when it returns, no handle has
  been touched, so the teardown has not been performed.
\<close>

theorem close_returns_conductor_result:
  assumes "heap w a = Some c"
  shows "aeron_counter_close (Some a) w =
           aeron_client_conductor_async_close_counter (conductor c) a w \<and>
         (\<forall>rc w'. aeron_counter_close (Some a) w = Inr (rc, w') \<longrightarrow> heap w' = heap w)"
proof -
  have eq: "aeron_counter_close (Some a) w =
              aeron_client_conductor_async_close_counter (conductor c) a w"
    using assms by (simp add: aeron_counter_close_def)
  show ?thesis
    unfolding eq using async_close_heap by blast
qed

theorem close_returns_conductor_result_witness:
  "heap (example_handle_world False [] 2) 16 = Some (example_counter False) \<and>
   aeron_counter_close (Some 16) (example_handle_world False [] 2) =
     aeron_client_conductor_async_close_counter (Some 5) 16 (example_handle_world False [] 2) \<and>
   aeron_counter_close (Some 16) (example_handle_world False [] 2) =
     Inr (0, example_handle_world False [remove_counter 42 16] 2) \<and>
   heap (example_handle_world False [remove_counter 42 16] 2) =
     heap (example_handle_world False [] 2)"
proof -
  have h: "heap (example_handle_world False [] 2) 16 = Some (example_counter False)"
    by (rule example_handle)
  have e: "aeron_counter_close (Some 16) (example_handle_world False [] 2) =
             Inr (0, example_handle_world False [remove_counter 42 16] 2)"
    by (simp add: example_close)
  have k: "conductor (example_counter False) = Some 5"
    by (simp add: example_counter_def)
  from close_returns_conductor_result [OF h]
  have "aeron_counter_close (Some 16) (example_handle_world False [] 2) =
          aeron_client_conductor_async_close_counter (Some 5) 16 (example_handle_world False [] 2)"
    and "heap (example_handle_world False [remove_counter 42 16] 2) =
          heap (example_handle_world False [] 2)"
    unfolding k using e by blast+
  with h e show ?thesis by simp
qed

text \<open>
  C6. Delete of a live handle returns 0 and releases the handle, whatever its closed flag
  and whatever the conductors still hold: nothing but the handle's presence is examined.
\<close>

theorem delete_returns_ok_and_frees:
  assumes "heap w a = Some c"
  shows "aeron_counter_delete (Some a) w = Inr (0, w\<lparr>heap := (heap w)(a := None)\<rparr>)"
  using assms by (simp add: aeron_counter_delete_def aeron_free_def)

text \<open>
  A handle that is not closed and whose close request is still on the channel is
  released all the same.
\<close>

theorem delete_returns_ok_and_frees_witness:
  "heap (example_handle_world False [remove_counter 42 16] 2) 16 = Some (example_counter False) \<and>
   is_closed (example_counter False) = False \<and>
   pending_commands (example_handle_world False [remove_counter 42 16] 2) 5 =
     [remove_counter 42 16] \<and>
   aeron_counter_delete (Some 16) (example_handle_world False [remove_counter 42 16] 2) =
     Inr (0, (example_handle_world False [remove_counter 42 16] 2)\<lparr>heap := Map.empty\<rparr>)"
proof -
  have h: "heap (example_handle_world False [remove_counter 42 16] 2) 16 =
             Some (example_counter False)"
    by (rule example_handle)
  from delete_returns_ok_and_frees [OF h] h show ?thesis
    by (simp add: example_handle_world_def example_counter_def pending_commands_def)
qed

text \<open>
  C7. Close and delete write no field of any handle. After a close every live handle is
  as it was; after a delete the deleted handle is gone and every other handle is as it
  was. So the counter id, registration id, shared address and conductor that create
  assigned stay as assigned for as long as the handle exists.
\<close>

theorem close_delete_preserve_handles:
  assumes "heap w q = Some c"
  shows "(aeron_counter_close x w = Inr (rc, w') \<longrightarrow> heap w' q = Some c) \<and>
         (aeron_counter_delete x w = Inr (rc, w') \<longrightarrow>
            heap w' q = (if x = Some q then None else Some c))"
proof (intro conjI impI)
  assume "aeron_counter_close x w = Inr (rc, w')"
  then have "heap w' = heap w" by (rule close_heap)
  with assms show "heap w' q = Some c" by simp
next
  assume "aeron_counter_delete x w = Inr (rc, w')"
  then have "heap w' = (case x of None \<Rightarrow> heap w | Some a \<Rightarrow> (heap w)(a := None))"
    by (rule delete_heap)
  with assms show "heap w' q = (if x = Some q then None else Some c)"
    by (cases x) auto
qed

theorem close_delete_preserve_handles_witness:
  "heap (example_handle_world False [] 2) 16 = Some (example_counter False) \<and>
   aeron_counter_close (Some 16) (example_handle_world False [] 2) =
     Inr (0, example_handle_world False [remove_counter 42 16] 2) \<and>
   heap (example_handle_world False [remove_counter 42 16] 2) 16 = Some (example_counter False) \<and>
   counter_id (example_counter False) = 7 \<and>
   aeron_counter_delete (Some 16) (example_handle_world False [] 2) =
     Inr (0, (example_handle_world False [] 2)\<lparr>heap := Map.empty\<rparr>) \<and>
   heap ((example_handle_world False [] 2)\<lparr>heap := Map.empty\<rparr>) 16 = None"
proof -
  have h: "heap (example_handle_world False [] 2) 16 = Some (example_counter False)"
    by (rule example_handle)
  have cl: "aeron_counter_close (Some 16) (example_handle_world False [] 2) =
              Inr (0, example_handle_world False [remove_counter 42 16] 2)"
    by (simp add: example_close)
  have de: "aeron_counter_delete (Some 16) (example_handle_world False [] 2) =
              Inr (0, (example_handle_world False [] 2)\<lparr>heap := Map.empty\<rparr>)"
    by (simp add: aeron_counter_delete_def aeron_free_def example_handle_world_def)
  from close_delete_preserve_handles
         [OF h, of "Some 16" 0 "example_handle_world False [remove_counter 42 16] 2"] cl
  have a: "heap (example_handle_world False [remove_counter 42 16] 2) 16 =
             Some (example_counter False)"
    by simp
  from close_delete_preserve_handles
         [OF h, of "Some 16" 0 "(example_handle_world False [] 2)\<lparr>heap := Map.empty\<rparr>"] de
  have b: "heap ((example_handle_world False [] 2)\<lparr>heap := Map.empty\<rparr>) 16 = None"
    by simp
  from h cl de a b show ?thesis by (simp add: example_counter_def)
qed

text \<open>
  C9. Create stores null in the caller's variable before it allocates: what the variable
  held before has no influence on the outcome, and whenever create returns a failure the
  variable holds null.
\<close>

theorem create_failure_leaves_null:
  assumes "aeron_counter_create counter cond reg_id ctr_id ctr_addr w = Inr (rc, w')"
      and "rc \<noteq> 0"
  shows "cells w' counter = Some None \<and>
         aeron_counter_create counter cond reg_id ctr_id ctr_addr
           (w\<lparr>cells := (cells w)(counter \<mapsto> None)\<rparr>) = Inr (rc, w')"
  using assms
  by (auto simp: aeron_counter_create_def aeron_alloc_def aeron_set_err_def Let_def
           split: option.splits if_splits)

text \<open>The variable held the stale pointer 77 before the failing call.\<close>

theorem create_failure_leaves_null_witness:
  "aeron_counter_create 100 (Some 5) 42 7 (Some 900) (example_world\<lparr>out_of_memory := Some 12\<rparr>) =
     Inr (- 1, example_world
       \<lparr>cells := [100 \<mapsto> None], out_of_memory := Some 12, errno := 12, aeron_errcode := 12,
        aeron_errmsg := ''aeron_counter_create (12): Cannot allocate memory''\<rparr>) \<and>
   (- 1 :: int) \<noteq> 0 \<and>
   cells (example_world\<lparr>out_of_memory := Some 12\<rparr>) 100 = Some (Some 77) \<and>
   cells (example_world
       \<lparr>cells := [100 \<mapsto> None], out_of_memory := Some 12, errno := 12, aeron_errcode := 12,
        aeron_errmsg := ''aeron_counter_create (12): Cannot allocate memory''\<rparr>) 100 = Some None"
proof -
  have r: "aeron_counter_create 100 (Some 5) 42 7 (Some 900)
             (example_world\<lparr>out_of_memory := Some 12\<rparr>) =
           Inr (- 1, example_world
             \<lparr>cells := [100 \<mapsto> None], out_of_memory := Some 12, errno := 12,
              aeron_errcode := 12,
              aeron_errmsg := ''aeron_counter_create (12): Cannot allocate memory''\<rparr>)"
    by (simp add: aeron_counter_create_def aeron_alloc_def aeron_set_err_def printf_d_def
          digit_char_def example_world_def example_strerror_def)
  have n: "(- 1 :: int) \<noteq> 0" by simp
  from create_failure_leaves_null [OF r n] r show ?thesis
    by (simp add: example_world_def)
qed

text \<open>
  C10. Delete of a null handle returns 0 and leaves the state as it was: the handle is
  passed to the release unchecked, and releasing null does nothing.
\<close>

theorem delete_null_is_noop: "aeron_counter_delete None w = Inr (0, w)"
  by (simp add: aeron_counter_delete_def aeron_free_def)

end
